theory Spec2Isabelle
  imports Complex_Main
begin

section \<open>Data model\<close>

text \<open>
  The exceptions the modelled code can raise. \<open>SystemNotFoundError\<close> is the one of
  \<open>errors.py\<close>; the others are Python's own.
\<close>

datatype error = ValueError | TypeError | AttributeError | IndexError | SystemNotFoundError

text \<open>
  An embedding is a vector of numbers; a timestamp is a number of time units. The numbers
  are rationals: the code only compares them and hands them to helpers.
\<close>

type_synonym encoding = "rat list"
type_synonym date = int

text \<open>
  The identity record, with the fields \<open>save_new_unknown\<close> writes and
  \<open>evaluate_detection\<close> reads.
\<close>

record user =
  author :: string
  system_id :: string
  detection :: encoding
  features :: "string list"
  init_date :: date
  last_date :: date
  knowledge :: bool
  frequency :: rat

text \<open>
  A detector holds the two parallel arrays of a KnownSet or an UnknownSet:
  \<open>detector.authors\<close> and \<open>detector.encodings\<close>.
\<close>

record detector =
  authors :: "string list"
  encodings :: "encoding list"

section \<open>numpy and Python helpers\<close>

text \<open>
  \<open>arr[mask]\<close> with a boolean mask: numpy raises IndexError when the mask and the array
  differ in length along axis 0, and otherwise keeps the entries where the mask is true.
\<close>

definition mask_select :: "'a list \<Rightarrow> bool list \<Rightarrow> error + 'a list" where
  "mask_select arr msk =
     (if length msk = length arr then Inr (map fst (filter snd (zip arr msk)))
      else Inl IndexError)"

text \<open>\<open>np.any\<close> and \<open>np.invert\<close> on a boolean vector.\<close>

definition np_any :: "bool list \<Rightarrow> bool" where
  "np_any msk = (\<exists>b \<in> set msk. b)"

definition np_invert :: "bool list \<Rightarrow> bool list" where
  "np_invert msk = map Not msk"

text \<open>
  \<open>np.append(arr, row.reshape(1, -1), axis=0)\<close> on the two-dimensional array of
  embeddings: numpy raises ValueError when the row's width is not the width of the array.
  The array is modelled by its rows, so the width of an array without rows is not
  represented and such an array takes any row.
\<close>

definition np_append_row :: "encoding list \<Rightarrow> encoding \<Rightarrow> error + encoding list" where
  "np_append_row arr row =
     (if \<forall>r \<in> set arr. length r = length row then Inr (arr @ [row]) else Inl ValueError)"

text \<open>
  \<open>authors, encodings = zip(*[[user.author, user.detection] for user in users])\<close>:
  with at least one row, \<open>zip(*rows)\<close> yields exactly two tuples, the first and the
  second components; with no row it yields nothing and the unpacking into two names raises
  ValueError.
\<close>

definition unzip_rows :: "('a \<times> 'b) list \<Rightarrow> error + ('a list \<times> 'b list)" where
  "unzip_rows rows =
     (if rows = [] then Inl ValueError else Inr (map fst rows, map snd rows))"

section \<open>External collaborators\<close>

text \<open>
  Modelled from the spec: \<open>Detector.compare\<close> (the class \<open>Detector\<close> is not among the
  sources). The spec's EncodingComparator, given an embedding and a reference set, returns
  a boolean match vector under a distance threshold: one entry per reference embedding.
  The test of one pair is the parameter \<open>match\<close>.
\<close>

definition compare :: "(encoding \<Rightarrow> encoding \<Rightarrow> bool) \<Rightarrow> detector \<Rightarrow> encoding \<Rightarrow> bool list" where
  "compare match d e = map (match e) (encodings d)"

text \<open>
  Modelled from the spec: the user collection of the store (\<open>UserUseCases\<close> is not among
  the sources). The collection is the list of its records in store-natural order;
  \<open>findSorted(filter, sortKey)\<close> returns the records that pass the filter, here sorted by
  frequency descending with ties in store-natural order, and \<open>delete(filter)\<close> removes the
  records with the given author.
\<close>

definition get_sort_users :: "(user \<Rightarrow> bool) \<Rightarrow> user list \<Rightarrow> user list option" where
  "get_sort_users flt db = Some (sort_key (\<lambda>u. - frequency u) (filter flt db))"

definition delete_user :: "string \<Rightarrow> user list \<Rightarrow> user list" where
  "delete_user a db = filter (\<lambda>u. author u \<noteq> a) db"

section \<open>The deduplication sweep (func.py, remove_users_duplicate_detection)\<close>

text \<open>
  The loop of the sweep. Its state is the index \<open>idx\<close>, the scratch detector whose two
  arrays are the working list, the store, and the authors handed to \<open>delete_user\<close> so far.
  \<open>idx\<close> is \<open>None\<close> only on the way out of the loop, so the model returns at that point.
\<close>

function sweep_loop ::
  "(encoding \<Rightarrow> encoding \<Rightarrow> bool) \<Rightarrow> nat \<Rightarrow> detector \<Rightarrow> user list \<Rightarrow> string list
     \<Rightarrow> error + (detector \<times> user list \<times> string list)" where
  "sweep_loop match idx d db deleted =
     (if length (encodings d) > 0 then
        if idx + 1 \<ge> length (encodings d) then Inr (d, db, deleted)
        else
          let encoding = encodings d ! idx;
              d1 = d\<lparr>encodings := drop (idx + 1) (encodings d)\<rparr>;
              d2 = d1\<lparr>authors := drop (idx + 1) (authors d1)\<rparr>;
              comparations = compare match d2 encoding
          in if np_any comparations then
               (case mask_select (authors d2) comparations of
                  Inl e \<Rightarrow> Inl e
                | Inr dups \<Rightarrow>
                    (case mask_select (authors d2) (np_invert comparations) of
                       Inl e \<Rightarrow> Inl e
                     | Inr authors' \<Rightarrow>
                         (case mask_select (encodings d2) (np_invert comparations) of
                            Inl e \<Rightarrow> Inl e
                          | Inr encodings' \<Rightarrow>
                              sweep_loop match (idx + 1)
                                (d2\<lparr>authors := authors', encodings := encodings'\<rparr>)
                                (fold delete_user dups db) (deleted @ dups))))
             else sweep_loop match (idx + 1) d2 db deleted
      else Inr (d, db, deleted))"
  by pat_completeness auto
termination
proof (relation "measure (\<lambda>(match, idx, d, db, deleted). length (encodings d))")
  show "wf (measure (\<lambda>(match, idx, d, db, deleted). length (encodings d)))"
    by simp
next
  fix match :: "encoding \<Rightarrow> encoding \<Rightarrow> bool" and idx :: nat and d :: detector
    and db :: "user list" and deleted :: "string list"
    and x xa xb xc x2 x2a x2b
  assume *: "0 < length (encodings d)" "\<not> length (encodings d) \<le> idx + 1"
    and xb: "xb = xa\<lparr>authors := drop (idx + 1) (authors xa)\<rparr>"
    and xa: "xa = d\<lparr>encodings := drop (idx + 1) (encodings d)\<rparr>"
    and sel: "mask_select (encodings xb) (np_invert xc) = Inr x2b"
  have "length x2b = length (filter snd (zip (encodings xb) (np_invert xc)))"
    and "length (np_invert xc) = length (encodings xb)"
    using sel by (auto simp: mask_select_def split: if_splits)
  moreover have "length (filter snd (zip (encodings xb) (np_invert xc)))
      \<le> length (zip (encodings xb) (np_invert xc))"
    by (rule length_filter_le)
  ultimately have "length x2b \<le> length (encodings xb)"
    by simp
  also have "\<dots> < length (encodings d)"
    using * xa xb by simp
  finally show "((match, idx + 1, xb\<lparr>authors := x2a, encodings := x2b\<rparr>, fold delete_user x2 db,
               deleted @ x2), match, idx, d, db, deleted)
             \<in> measure (\<lambda>(match, idx, d, db, deleted). length (encodings d))"
    by simp
next
  fix match :: "encoding \<Rightarrow> encoding \<Rightarrow> bool" and idx :: nat and d :: detector
    and db :: "user list" and deleted :: "string list"
    and x xa xb xc
  assume "0 < length (encodings d)" "\<not> length (encodings d) \<le> idx + 1"
    and xb: "xb = xa\<lparr>authors := drop (idx + 1) (authors xa)\<rparr>"
    and xa: "xa = d\<lparr>encodings := drop (idx + 1) (encodings d)\<rparr>"
  then show "((match, idx + 1, xb, db, deleted), match, idx, d, db, deleted)
             \<in> measure (\<lambda>(match, idx, d, db, deleted). length (encodings d))"
    by auto
qed

text \<open>
  The body of \<open>remove_users_duplicate_detection\<close> after the store query. \<open>users\<close> is the
  query's result, \<open>None\<close> or a list. The guard is the source's
  \<open>users != [] or users is not None\<close>; iterating over \<open>None\<close> raises TypeError.
\<close>

definition sweep_users ::
  "(encoding \<Rightarrow> encoding \<Rightarrow> bool) \<Rightarrow> user list option \<Rightarrow> user list
     \<Rightarrow> error + (detector \<times> user list \<times> string list)" where
  "sweep_users match users db =
     (if users \<noteq> Some [] \<or> users \<noteq> None then
        (case users of
           None \<Rightarrow> Inl TypeError
         | Some us \<Rightarrow>
             (case unzip_rows (map (\<lambda>user. (author user, detection user)) us) of
                Inl e \<Rightarrow> Inl e
              | Inr (authors0, encodings0) \<Rightarrow>
                  sweep_loop match 0 \<lparr>authors = authors0, encodings = encodings0\<rparr> db []))
      else Inr (\<lparr>authors = [], encodings = []\<rparr>, db, []))"

definition remove_users_duplicate_detection ::
  "(encoding \<Rightarrow> encoding \<Rightarrow> bool) \<Rightarrow> (user \<Rightarrow> bool) \<Rightarrow> user list
     \<Rightarrow> error + (detector \<times> user list \<times> string list)" where
  "remove_users_duplicate_detection match flt db =
     sweep_users match (get_sort_users flt db) db"

section \<open>Theorems\<close>

text \<open>
  C10: when the store query returns the empty list, the guard
  \<open>users != [] or users is not None\<close> lets it through, and unpacking the author and
  embedding columns of zero records raises: the sweep ends in ValueError instead of
  returning as a no-op.
\<close>

theorem sweep_empty_query_raises:
  "sweep_users match (Some []) db = Inl ValueError"
  by (simp add: sweep_users_def unzip_rows_def)

theorem sweep_empty_query_raises_witness:
  "sweep_users (\<lambda>a b. a = b) (Some []) [] = Inl ValueError"
  by (rule sweep_empty_query_raises)

end
